theory Spec2Isabelle
  imports Main "HOL-Library.Sublist"
begin

section \<open>Errors of the planner\<close>

text \<open>
  Modelled from the spec: the error values of the planner (\<open>errWaiting\<close> and
  \<open>IsErrWaiting\<close> are declared in the planner package outside the files verified here).
  Every operation returns success (a nil error, \<open>None\<close>), a waiting condition or a
  terminal failure. \<open>errWaiting\<close> is the string-typed waiting error, \<open>errorString\<close>
  is what \<open>errors.New\<close> builds, and \<open>wrapError\<close> is what \<open>fmt.Errorf\<close> builds for a
  format with \<open>%w\<close>: the formatted message together with the wrapped error.
\<close>

datatype err =
    errWaiting string
  | errorString string
  | wrapError string err

type_synonym error = "err option"

fun Error :: "err \<Rightarrow> string" where
  "Error (errWaiting s) = s"
| "Error (errorString s) = s"
| "Error (wrapError msg e) = msg"

text \<open>\<open>IsErrWaiting\<close> is \<open>errors.As\<close> against the waiting type: it follows the chain of
  wrapped errors.\<close>

fun IsErrWaiting :: "err \<Rightarrow> bool" where
  "IsErrWaiting (errWaiting s) = True"
| "IsErrWaiting (errorString s) = False"
| "IsErrWaiting (wrapError msg e) = IsErrWaiting e"

text \<open>\<open>fmt.Errorf(format + "%w", e)\<close> for a format text without other verbs.\<close>

definition Errorf_w :: "string \<Rightarrow> err \<Rightarrow> err" where
  "Errorf_w format e = wrapError (format @ Error e) e"

fun Unwrap :: "err \<Rightarrow> err option" where
  "Unwrap (wrapError msg e) = Some e"
| "Unwrap e = None"

section \<open>Phase state of the etcd snapshot creation (etcdcreate.go)\<close>

text \<open>
  Modelled from the spec: the phase type is a string-valued enum declared with the API
  types; the spec lists None (the empty phase), Started, RestartClusterServices, Finished
  and Failed. Any other stored value is \<open>PhaseOther\<close> and reaches the \<open>default\<close> branch.
\<close>

datatype ETCDSnapshotPhase =
    PhaseEmpty
  | ETCDSnapshotPhaseStarted
  | ETCDSnapshotPhaseRestartCluster
  | ETCDSnapshotPhaseFinished
  | ETCDSnapshotPhaseFailed
  | PhaseOther string

text \<open>
  The status of the control plane, with the fields this code reads and writes. The request
  type \<open>ETCDSnapshotCreate\<close> is declared with the API types; it is the type parameter
  \<open>'r\<close>, and a pointer to it is an \<open>option\<close>. \<open>Bootstrapped\<close> is the value of the
  condition \<open>capr.Bootstrapped.IsTrue(&status)\<close>.
\<close>

record 'r RKEControlPlaneStatus =
  ETCDSnapshotCreatePhase :: ETCDSnapshotPhase
  ETCDSnapshotCreate :: "'r option"
  Initialized :: bool
  Bootstrapped :: bool

text \<open>\<open>equality.Semantic.DeepEqual\<close> on two request pointers: both nil, or both set with
  equal contents.\<close>

definition DeepEqual :: "'r option \<Rightarrow> 'r option \<Rightarrow> bool" where
  "DeepEqual a b =
     (case a of
        None \<Rightarrow> (case b of None \<Rightarrow> True | Some y \<Rightarrow> False)
      | Some x \<Rightarrow> (case b of None \<Rightarrow> False | Some y \<Rightarrow> x = y))"

definition setEtcdSnapshotCreateState ::
  "'r RKEControlPlaneStatus \<Rightarrow> 'r option \<Rightarrow> ETCDSnapshotPhase \<Rightarrow> 'r RKEControlPlaneStatus \<times> error" where
  "setEtcdSnapshotCreateState status create phase =
     (if ETCDSnapshotCreatePhase status \<noteq> phase \<or> \<not> DeepEqual (ETCDSnapshotCreate status) create
      then (status\<lparr>ETCDSnapshotCreatePhase := phase, ETCDSnapshotCreate := create\<rparr>,
            Some (errWaiting ''refreshing etcd create state''))
      else (status, None))"

definition resetEtcdSnapshotCreateState ::
  "'r RKEControlPlaneStatus \<Rightarrow> 'r RKEControlPlaneStatus \<times> error" where
  "resetEtcdSnapshotCreateState status =
     (if ETCDSnapshotCreate status = None \<and> ETCDSnapshotCreatePhase status = PhaseEmpty
      then (status, None)
      else setEtcdSnapshotCreateState status None PhaseEmpty)"

definition startOrRestartEtcdSnapshotCreate ::
  "'r RKEControlPlaneStatus \<Rightarrow> 'r option \<Rightarrow> 'r RKEControlPlaneStatus \<times> error" where
  "startOrRestartEtcdSnapshotCreate status snapshot =
     (if ETCDSnapshotCreate status = None \<or> \<not> DeepEqual snapshot (ETCDSnapshotCreate status)
      then setEtcdSnapshotCreateState status snapshot ETCDSnapshotPhaseStarted
      else (status, None))"

section \<open>S3 arguments of an etcd snapshot (s3args.go)\<close>

text \<open>
  The S3 target of a request and the cluster-level etcd configuration, with the fields
  \<open>ToArgs\<close> reads (the types are declared with the API types). The fields of the target
  carry the prefix \<open>S3_\<close>, because the resolved credential has fields of the same names.
\<close>

record ETCDSnapshotS3 =
  S3_Endpoint :: string
  S3_EndpointCA :: string
  S3_SkipSSLVerify :: bool
  S3_Bucket :: string
  S3_Region :: string
  S3_CloudCredentialName :: string
  S3_Folder :: string

record ETCD =
  ETCD_S3 :: "ETCDSnapshotS3 option"

record 'r RKEControlPlaneSpec =
  Spec_ETCD :: "ETCD option"
  Spec_ETCDSnapshotCreate :: "'r option"
  KubernetesVersion :: string

record 'r RKEControlPlane =
  Namespace :: string
  Name :: string
  Spec :: "'r RKEControlPlaneSpec"
  Status :: "'r RKEControlPlaneStatus"

record File =
  Content :: string
  Path :: string

record s3Credential =
  AccessKey :: string
  SecretKey :: string
  Region :: string
  Endpoint :: string
  EndpointCA :: string
  SkipSSLVerify :: bool
  Bucket :: string
  Folder :: string

text \<open>
  What \<open>s3args.go\<close> calls outside itself, taken as parameters:
  \<^item> \<open>GetCloudCredentialSecret\<close>: the lookup of a secret by namespace and name in the
    secret cache; it returns an error, or the data of the secret, listed in the order in
    which the range loop visits it;
  \<^item> \<open>RSplit\<close>: \<open>kv.RSplit\<close>, which splits a key at a separator;
  \<^item> \<open>Hex\<close>: \<open>name.Hex\<close>, the first characters of a hexadecimal digest of a string;
  \<^item> \<open>configFile\<close>: the path of a named configuration file on the nodes of a control
    plane;
  \<^item> \<open>EncodeToString\<close>: standard base64 encoding.
\<close>

record 'r s3Args =
  GetCloudCredentialSecret :: "string \<Rightarrow> string \<Rightarrow> err + (string \<times> string) list"
  RSplit :: "string \<Rightarrow> string \<Rightarrow> string \<times> string"
  Hex :: "string \<Rightarrow> nat \<Rightarrow> string"
  configFile :: "'r RKEControlPlane \<Rightarrow> string \<Rightarrow> string"
  EncodeToString :: "string \<Rightarrow> string"

definition first :: "string \<Rightarrow> string \<Rightarrow> string" where
  "first one two = (if one = [] then two else one)"

definition S3Enabled :: "ETCDSnapshotS3 option \<Rightarrow> bool" where
  "S3Enabled s3 =
     (case s3 of
        None \<Rightarrow> False
      | Some t \<Rightarrow>
          if S3_Bucket t \<noteq> [] \<or> S3_Endpoint t \<noteq> [] \<or> S3_Folder t \<noteq> [] \<or>
             S3_CloudCredentialName t \<noteq> [] \<or> S3_Region t \<noteq> []
          then True else False)"

text \<open>\<open>strings.HasSuffix\<close>.\<close>

definition HasSuffix :: "string \<Rightarrow> string \<Rightarrow> bool" where
  "HasSuffix s suffix' =
     (length suffix' \<le> length s \<and> drop (length s - length suffix') s = suffix')"

text \<open>The zero value of the credential.\<close>

definition emptyCredential :: s3Credential where
  "emptyCredential =
     \<lparr>AccessKey = [], SecretKey = [], Region = [], Endpoint = [], EndpointCA = [],
      SkipSSLVerify = False, Bucket = [], Folder = []\<rparr>"

text \<open>The loop of \<open>getS3Credential\<close> over the data of the secret: every key is replaced
  by the second component of \<open>RSplit key "-"\<close>, and a later entry overwrites an earlier
  one of the same key.\<close>

fun stripKeys :: "(string \<Rightarrow> string \<Rightarrow> string \<times> string) \<Rightarrow> (string \<times> string) list \<Rightarrow>
    (string \<rightharpoonup> string) \<Rightarrow> (string \<rightharpoonup> string)" where
  "stripKeys rsplit [] data = data"
| "stripKeys rsplit ((k, v) # rest) data = stripKeys rsplit rest (data(snd (rsplit k ''-'') \<mapsto> v))"

text \<open>Reading a key of the map and converting the bytes to a string: a missing key gives
  the empty string.\<close>

definition dataString :: "(string \<rightharpoonup> string) \<Rightarrow> string \<Rightarrow> string" where
  "dataString data k = (case data k of None \<Rightarrow> [] | Some v \<Rightarrow> v)"

definition getS3Credential :: "'r s3Args \<Rightarrow> string \<Rightarrow> string \<Rightarrow> s3Credential \<times> error" where
  "getS3Credential s namespace name' =
     (if name' = [] then (emptyCredential, None)
      else
        (case GetCloudCredentialSecret s namespace name' of
           Inl e \<Rightarrow>
             (emptyCredential, Some (Errorf_w ''failed to lookup etcdSnapshotCloudCredentialName: '' e))
         | Inr secretData \<Rightarrow>
             (let data = stripKeys (RSplit s) secretData Map.empty
              in (\<lparr>AccessKey = dataString data ''accessKey'',
                   SecretKey = dataString data ''secretKey'',
                   Region = dataString data ''defaultRegion'',
                   Endpoint = dataString data ''defaultEndpoint'',
                   EndpointCA = dataString data ''defaultEndpointCA'',
                   SkipSSLVerify = (dataString data ''defaultSkipSSLVerify'' = ''true''),
                   Bucket = dataString data ''defaultBucket'',
                   Folder = dataString data ''defaultFolder''\<rparr>, None))))"

text \<open>The local variable \<open>credName\<close> of \<open>ToArgs\<close>: the credential reference of the
  target, and the cluster-level one when the target has none.\<close>

definition credName :: "ETCDSnapshotS3 \<Rightarrow> 'r RKEControlPlane \<Rightarrow> string" where
  "credName s3 controlPlane =
     (if S3_CloudCredentialName s3 = [] then
        (case Spec_ETCD (Spec controlPlane) of
           None \<Rightarrow> S3_CloudCredentialName s3
         | Some etcd \<Rightarrow>
             (case ETCD_S3 etcd of
                None \<Rightarrow> S3_CloudCredentialName s3
              | Some clusterS3 \<Rightarrow> S3_CloudCredentialName clusterS3))
      else S3_CloudCredentialName s3)"

text \<open>The name of the side file of a certificate authority:
  \<open>fmt.Sprintf("s3-endpoint-ca-%s.crt", name.Hex(ca, 5))\<close>.\<close>

definition s3CAName :: "'r s3Args \<Rightarrow> string \<Rightarrow> string" where
  "s3CAName s ca = ''s3-endpoint-ca-'' @ Hex s ca 5 @ ''.crt''"

text \<open>
  \<open>ToArgs\<close> returns the arguments, the environment, the files and the error. Each
  conditional \<open>append\<close> of the source contributes one segment, in the order of the source;
  the conditional on the endpoint CA contributes an argument and the files.
\<close>

definition ToArgs ::
  "'r s3Args \<Rightarrow> ETCDSnapshotS3 option \<Rightarrow> 'r RKEControlPlane \<Rightarrow> string \<Rightarrow> bool \<Rightarrow>
   string list \<times> string list \<times> File list \<times> error" where
  "ToArgs s s3opt controlPlane pfx secretKeyInEnv =
     (case s3opt of
        None \<Rightarrow> ([], [], [], None)
      | Some s3 \<Rightarrow>
          if \<not> S3Enabled (Some s3) then ([], [], [], None)
          else
            (case getS3Credential s (Namespace controlPlane) (credName s3 controlPlane) of
               (s3Cred, Some e) \<Rightarrow> ([], [], [], Some e)
             | (s3Cred, None) \<Rightarrow>
                 (let bucket =
                        (if S3_Bucket s3 \<noteq> [] \<or> Bucket s3Cred \<noteq> []
                         then [''--'' @ pfx @ ''s3-bucket='' @ first (S3_Bucket s3) (Bucket s3Cred)]
                         else []);
                      accessKey =
                        (if AccessKey s3Cred \<noteq> []
                         then [''--'' @ pfx @ ''s3-access-key='' @ AccessKey s3Cred] else []);
                      env =
                        (if SecretKey s3Cred \<noteq> [] \<and> secretKeyInEnv
                         then [''AWS_SECRET_ACCESS_KEY='' @ SecretKey s3Cred] else []);
                      secretKey =
                        (if SecretKey s3Cred \<noteq> [] \<and> \<not> secretKeyInEnv
                         then [''--'' @ pfx @ ''s3-secret-key='' @ SecretKey s3Cred] else []);
                      region =
                        (let v = first (S3_Region s3) (Region s3Cred) in
                         if v \<noteq> [] then [''--'' @ pfx @ ''s3-region='' @ v] else []);
                      folder =
                        (let v = first (S3_Folder s3) (Folder s3Cred) in
                         if v \<noteq> [] then [''--'' @ pfx @ ''s3-folder='' @ v] else []);
                      endpoint =
                        (let v = first (S3_Endpoint s3) (Endpoint s3Cred) in
                         if v \<noteq> [] then [''--'' @ pfx @ ''s3-endpoint='' @ v] else []);
                      skipSSLVerify =
                        (if S3_SkipSSLVerify s3 \<or> SkipSSLVerify s3Cred
                         then [''--'' @ pfx @ ''s3-skip-ssl-verify''] else []);
                      endpointCA =
                        (let v = first (S3_EndpointCA s3) (EndpointCA s3Cred) in
                         if v \<noteq> [] then
                           if v = S3_EndpointCA s3 \<and> HasSuffix v ''.crt'' then
                             ([''--'' @ pfx @ ''s3-endpoint-ca='' @ v],
                              if EndpointCA s3Cred \<noteq> [] then
                                (let filePath = configFile s controlPlane (s3CAName s (EndpointCA s3Cred)) in
                                 if filePath = v
                                 then [\<lparr>Content = EncodeToString s (EndpointCA s3Cred), Path = filePath\<rparr>]
                                 else [])
                              else [])
                           else
                             (let filePath = configFile s controlPlane (s3CAName s v) in
                              ([''--'' @ pfx @ ''s3-endpoint-ca='' @ filePath],
                               [\<lparr>Content = EncodeToString s v, Path = filePath\<rparr>]))
                         else ([], []));
                      args = bucket @ accessKey @ secretKey @ region @ folder @ endpoint @
                             skipSSLVerify @ fst endpointCA;
                      files = snd endpointCA
                  in if length args > 0
                     then (args @ [''--'' @ pfx @ ''s3''], env, files, None)
                     else (args, env, files, None))))"

section \<open>Creating an etcd snapshot on the etcd nodes (etcdcreate.go)\<close>

text \<open>
  A candidate machine of the cluster plan, with what \<open>runEtcdSnapshotCreate\<close> reads of it:
  the namespace and name of the machine, the name of the node it references
  (\<open>Machine.Status.NodeRef\<close> is a pointer, \<open>None\<close> when nil) and its labels.
\<close>

record planEntry =
  Machine_Namespace :: string
  Machine_Name :: string
  Machine_Status_NodeRef :: "string option"
  Metadata_Labels :: "(string \<times> string) list"

record OneTimeInstruction =
  Instruction_Name :: string
  Command :: string
  Args :: "string list"

record NodePlan =
  Files :: "File list"
  Instructions :: "OneTimeInstruction list"

text \<open>
  What \<open>etcdcreate.go\<close> calls outside itself, taken as parameters. \<open>'t\<close> is the type of
  the tokens secret, \<open>'p\<close> the type of the cluster plan and \<open>'s\<close> the type of the plan
  store \<open>p.store\<close>, which the transport reads and writes:
  \<^item> \<open>collect\<close> and \<open>isEtcd\<close>: the machines of the cluster plan that pass a filter, and the
    filter of the etcd role;
  \<^item> \<open>generatePlanWithConfigFiles\<close>: the base plan of a node, the server it joined and an
    error (its second result is dropped by the caller);
  \<^item> \<open>generateInstallInstructionWithSkipStart\<close>, \<open>GetRuntimeCommand\<close>;
  \<^item> \<open>assignAndCheckPlan\<close>: the transport, which delivers the plan of a node and checks its
    completion against the thresholds; it returns the store and an error;
  \<^item> \<open>findInitNode\<close>: whether an init node was found, the join server and an error (its
    third result is dropped by the caller);
  \<^item> \<open>runEtcdSnapshotManagementServiceStart\<close>: the restart of the services, which returns
    the store and an error.
  Logging has no effect on what the functions return and is left out.
\<close>

record ('r, 't, 'p, 's) Planner =
  collect :: "'p \<Rightarrow> (planEntry \<Rightarrow> bool) \<Rightarrow> planEntry list"
  isEtcd :: "planEntry \<Rightarrow> bool"
  generatePlanWithConfigFiles ::
    "'r RKEControlPlane \<Rightarrow> 't \<Rightarrow> planEntry \<Rightarrow> string \<Rightarrow> NodePlan \<times> string \<times> error"
  generateInstallInstructionWithSkipStart :: "'r RKEControlPlane \<Rightarrow> planEntry \<Rightarrow> OneTimeInstruction"
  GetRuntimeCommand :: "string \<Rightarrow> string"
  assignAndCheckPlan ::
    "'s \<Rightarrow> string \<Rightarrow> planEntry \<Rightarrow> NodePlan \<Rightarrow> string \<Rightarrow> nat \<Rightarrow> nat \<Rightarrow> 's \<times> error"
  findInitNode :: "'r RKEControlPlane \<Rightarrow> 'p \<Rightarrow> bool \<times> string \<times> error"
  runEtcdSnapshotManagementServiceStart ::
    "'s \<Rightarrow> 'r RKEControlPlane \<Rightarrow> 't \<Rightarrow> 'p \<Rightarrow> (planEntry \<Rightarrow> bool) \<Rightarrow> string \<Rightarrow> 's \<times> error"

definition generateEtcdSnapshotCreatePlan ::
  "('r, 't, 'p, 's) Planner \<Rightarrow> 'r RKEControlPlane \<Rightarrow> 't \<Rightarrow> planEntry \<Rightarrow> string \<Rightarrow>
   NodePlan \<times> string \<times> error" where
  "generateEtcdSnapshotCreatePlan p controlPlane tokensSecret entry joinServer =
     (let args = [''etcd-snapshot''] in
      case generatePlanWithConfigFiles p controlPlane tokensSecret entry joinServer of
        (createPlan, joinedServer, err) \<Rightarrow>
          (createPlan\<lparr>Instructions := Instructions createPlan @
              [generateInstallInstructionWithSkipStart p controlPlane entry,
               \<lparr>Instruction_Name = ''create'',
                Command = GetRuntimeCommand p (KubernetesVersion (Spec controlPlane)),
                Args = args\<rparr>]\<rparr>,
           joinedServer, err))"

text \<open>The description of the operation on a node, as the loop of \<open>runEtcdSnapshotCreate\<close>
  builds it.\<close>

definition snapshotMsg :: "planEntry \<Rightarrow> string" where
  "snapshotMsg server =
     (case Machine_Status_NodeRef server of
        None \<Rightarrow> ''etcd snapshot on machine '' @ Machine_Namespace server @ ''/'' @ Machine_Name server
      | Some nodeName \<Rightarrow>
          if nodeName \<noteq> [] then ''etcd snapshot on node '' @ nodeName
          else ''etcd snapshot on machine '' @ Machine_Namespace server @ ''/'' @ Machine_Name server)"

text \<open>
  The loop of \<open>runEtcdSnapshotCreate\<close> over the servers, from the store and the errors
  collected so far. An error of the plan generation returns at once, with that error alone.
\<close>

fun runEtcdSnapshotCreate_loop ::
  "('r, 't, 'p, 's) Planner \<Rightarrow> 'r RKEControlPlane \<Rightarrow> 't \<Rightarrow> string \<Rightarrow> planEntry list \<Rightarrow>
   's \<Rightarrow> error list \<Rightarrow> 's \<times> error list" where
  "runEtcdSnapshotCreate_loop p controlPlane tokensSecret joinServer [] store errs = (store, errs)"
| "runEtcdSnapshotCreate_loop p controlPlane tokensSecret joinServer (server # rest) store errs =
     (case generateEtcdSnapshotCreatePlan p controlPlane tokensSecret server joinServer of
        (createPlan, joinedServer, Some e) \<Rightarrow> (store, [Some e])
      | (createPlan, joinedServer, None) \<Rightarrow>
          (case assignAndCheckPlan p store (snapshotMsg server) server createPlan joinedServer 3 3 of
             (store', Some e) \<Rightarrow>
               runEtcdSnapshotCreate_loop p controlPlane tokensSecret joinServer rest store' (errs @ [Some e])
           | (store', None) \<Rightarrow>
               runEtcdSnapshotCreate_loop p controlPlane tokensSecret joinServer rest store' errs))"

definition runEtcdSnapshotCreate ::
  "('r, 't, 'p, 's) Planner \<Rightarrow> 's \<Rightarrow> 'r RKEControlPlane \<Rightarrow> 't \<Rightarrow> 'p \<Rightarrow> string \<Rightarrow>
   's \<times> error list" where
  "runEtcdSnapshotCreate p store controlPlane tokensSecret clusterPlan joinServer =
     (let servers = collect p clusterPlan (isEtcd p) in
      if length servers = 0
      then (store, [Some (errorString ''failed to find node to perform etcd snapshot'')])
      else runEtcdSnapshotCreate_loop p controlPlane tokensSecret joinServer servers store [])"

text \<open>
  \<open>merr.NewErrors(finErrs...).Error()\<close> of the wrangler library. \<open>NewErrors\<close> of no error
  is the nil error, and the call of its method panics (\<open>None\<close>); of one error it is that
  error, and of several a list whose text is written to a buffer, with the separator
  before every text that finds the buffer non-empty. \<open>finErrs\<close> holds no nil error.
\<close>

fun writeErrors :: "string \<Rightarrow> err list \<Rightarrow> string" where
  "writeErrors buf [] = buf"
| "writeErrors buf (e # es) =
     writeErrors ((if length buf > 0 then buf @ '', '' else buf) @ Error e) es"

definition NewErrors_Error :: "err list \<Rightarrow> string option" where
  "NewErrors_Error errs =
     (case errs of
        [] \<Rightarrow> None
      | [e] \<Rightarrow> Some (Error e)
      | _ \<Rightarrow> Some (writeErrors [] errs))"

text \<open>
  The loop of \<open>createEtcdSnapshot\<close> over the errors of the fan-out, on the status, the
  errors kept (\<open>finErrs\<close>) and the flag \<open>stateSet\<close>. A nil error is skipped. The first
  error that is not a waiting error calls the setter with the phase Failed, and so does
  every later one until a call of the setter returns no error.
\<close>

fun createEtcdSnapshot_loop ::
  "'r option \<Rightarrow> error list \<Rightarrow> 'r RKEControlPlaneStatus \<times> err list \<times> bool \<Rightarrow>
   'r RKEControlPlaneStatus \<times> err list \<times> bool" where
  "createEtcdSnapshot_loop snapshot [] acc = acc"
| "createEtcdSnapshot_loop snapshot (None # errs) acc = createEtcdSnapshot_loop snapshot errs acc"
| "createEtcdSnapshot_loop snapshot (Some e # errs) (status, finErrs, stateSet) =
     (if \<not> IsErrWaiting e then
        if \<not> stateSet then
          (case setEtcdSnapshotCreateState status snapshot ETCDSnapshotPhaseFailed of
             (status', Some e') \<Rightarrow>
               createEtcdSnapshot_loop snapshot errs (status', finErrs @ [e] @ [e'], stateSet)
           | (status', None) \<Rightarrow>
               createEtcdSnapshot_loop snapshot errs (status', finErrs @ [e], True))
        else createEtcdSnapshot_loop snapshot errs (status, finErrs @ [e], stateSet)
      else createEtcdSnapshot_loop snapshot errs (status, finErrs @ [e], stateSet))"

text \<open>
  \<open>createEtcdSnapshot\<close> returns the store, the status and the error; \<open>None\<close> is a panic.
  The switch is on the phase of the status of the control plane, as in the source.
\<close>

definition createEtcdSnapshot ::
  "('r, 't, 'p, 's) Planner \<Rightarrow> 's \<Rightarrow> 'r RKEControlPlane \<Rightarrow> 'r RKEControlPlaneStatus \<Rightarrow> 't \<Rightarrow> 'p \<Rightarrow>
   ('s \<times> 'r RKEControlPlaneStatus \<times> error) option" where
  "createEtcdSnapshot p store controlPlane status tokensSecret clusterPlan =
     (if Spec_ETCDSnapshotCreate (Spec controlPlane) = None then
        (case resetEtcdSnapshotCreateState status of (status', err) \<Rightarrow> Some (store, status', err))
      else if \<not> Initialized status \<or> \<not> Bootstrapped status then Some (store, status, None)
      else
        (case findInitNode p controlPlane clusterPlan of
           (found, joinServer, Some e) \<Rightarrow> Some (store, status, Some e)
         | (found, joinServer, None) \<Rightarrow>
             if \<not> found \<or> joinServer = [] then Some (store, status, None)
             else
               (let snapshot = Spec_ETCDSnapshotCreate (Spec controlPlane) in
                case startOrRestartEtcdSnapshotCreate status snapshot of
                  (status1, Some e) \<Rightarrow> Some (store, status1, Some e)
                | (status1, None) \<Rightarrow>
                    (case ETCDSnapshotCreatePhase (Status controlPlane) of
                       ETCDSnapshotPhaseStarted \<Rightarrow>
                         (case runEtcdSnapshotCreate p store controlPlane tokensSecret clusterPlan joinServer of
                            (store', errs) \<Rightarrow>
                              if length errs > 0 then
                                (case createEtcdSnapshot_loop snapshot errs (status1, [], False) of
                                   (status2, finErrs, stateSet) \<Rightarrow>
                                     (case NewErrors_Error finErrs of
                                        None \<Rightarrow> None
                                      | Some text' \<Rightarrow> Some (store', status2, Some (errWaiting text'))))
                              else
                                (case setEtcdSnapshotCreateState status1 snapshot ETCDSnapshotPhaseRestartCluster of
                                   (status2, err) \<Rightarrow> Some (store', status2, err)))
                     | ETCDSnapshotPhaseRestartCluster \<Rightarrow>
                         (case runEtcdSnapshotManagementServiceStart p store controlPlane tokensSecret
                                 clusterPlan (isEtcd p) ''etcd snapshot creation'' of
                            (store', Some e) \<Rightarrow> Some (store', status1, Some e)
                          | (store', None) \<Rightarrow>
                              (case setEtcdSnapshotCreateState status1 snapshot ETCDSnapshotPhaseFinished of
                                 (status2, err) \<Rightarrow> Some (store', status2, err)))
                     | ETCDSnapshotPhaseFailed \<Rightarrow> Some (store, status1, None)
                     | ETCDSnapshotPhaseFinished \<Rightarrow> Some (store, status1, None)
                     | _ \<Rightarrow>
                         (case setEtcdSnapshotCreateState status1 snapshot ETCDSnapshotPhaseStarted of
                            (status2, err) \<Rightarrow> Some (store, status2, err))))))"

section \<open>Notions used to state the properties\<close>

text \<open>The errors of a list of errors that are not nil, in order.\<close>

fun nonNil :: "error list \<Rightarrow> err list" where
  "nonNil [] = []"
| "nonNil (None # errs) = nonNil errs"
| "nonNil (Some e # errs) = e # nonNil errs"

text \<open>
  The fan-out as the specification words it: every node is dispatched, in order, with the
  plan generated for it, and every error of a dispatch that is not nil is collected; nothing
  ends the fan-out early.
\<close>

fun dispatchEveryNode ::
  "('r, 't, 'p, 's) Planner \<Rightarrow> 'r RKEControlPlane \<Rightarrow> 't \<Rightarrow> string \<Rightarrow> planEntry list \<Rightarrow>
   's \<Rightarrow> 's \<times> error list" where
  "dispatchEveryNode p controlPlane tokensSecret joinServer [] store = (store, [])"
| "dispatchEveryNode p controlPlane tokensSecret joinServer (server # rest) store =
     (case generateEtcdSnapshotCreatePlan p controlPlane tokensSecret server joinServer of
        (createPlan, joinedServer, err) \<Rightarrow>
          (case assignAndCheckPlan p store (snapshotMsg server) server createPlan joinedServer 3 3 of
             (store', e) \<Rightarrow>
               (case dispatchEveryNode p controlPlane tokensSecret joinServer rest store' of
                  (store'', es) \<Rightarrow> (store'', (case e of None \<Rightarrow> es | Some x \<Rightarrow> Some x # es)))))"

text \<open>Whether the plan generation succeeds for a server.\<close>

definition generates ::
  "('r, 't, 'p, 's) Planner \<Rightarrow> 'r RKEControlPlane \<Rightarrow> 't \<Rightarrow> string \<Rightarrow> planEntry \<Rightarrow> bool" where
  "generates p controlPlane tokensSecret joinServer server =
     (snd (snd (generateEtcdSnapshotCreatePlan p controlPlane tokensSecret server joinServer)) = None)"

section \<open>Example inputs\<close>

text \<open>
  A secret cache with three cloud credentials, a splitter for keys that hold no separator,
  and stand-ins for the digest, the configuration path and the encoding.
\<close>

definition exampleSecrets :: "string \<Rightarrow> string \<Rightarrow> err + (string \<times> string) list" where
  "exampleSecrets namespace name' =
     (if name' = ''east'' then Inr [(''defaultRegion'', ''us-east-1'')]
      else if name' = ''keys'' then Inr [(''secretKey'', ''hunter2'')]
      else if name' = ''ca'' then Inr [(''defaultEndpointCA'', ''PEM'')]
      else Inl (errorString ''secret not found''))"

definition exampleS3Args :: "nat s3Args" where
  "exampleS3Args =
     \<lparr>GetCloudCredentialSecret = exampleSecrets,
      RSplit = (\<lambda>k sep. ([], k)),
      Hex = (\<lambda>s n. take n s),
      configFile = (\<lambda>controlPlane n. ''/etc/'' @ n),
      EncodeToString = (\<lambda>s. s)\<rparr>"

definition blankTarget :: ETCDSnapshotS3 where
  "blankTarget =
     \<lparr>S3_Endpoint = [], S3_EndpointCA = [], S3_SkipSSLVerify = False, S3_Bucket = [],
      S3_Region = [], S3_CloudCredentialName = [], S3_Folder = []\<rparr>"

definition exampleStatus :: "nat RKEControlPlaneStatus" where
  "exampleStatus =
     \<lparr>ETCDSnapshotCreatePhase = ETCDSnapshotPhaseStarted, ETCDSnapshotCreate = Some 1,
      Initialized = True, Bootstrapped = True\<rparr>"

definition exampleControlPlane :: "nat RKEControlPlane" where
  "exampleControlPlane =
     \<lparr>Namespace = ''fleet-default'', Name = ''cluster'',
      Spec = \<lparr>Spec_ETCD = Some \<lparr>ETCD_S3 = Some (blankTarget\<lparr>S3_CloudCredentialName := ''missing''\<rparr>)\<rparr>,
              Spec_ETCDSnapshotCreate = Some 1, KubernetesVersion = ''v1.27.1+rke2r1''\<rparr>,
      Status = exampleStatus\<rparr>"

text \<open>
  A planner whose store is the list of the names of the machines dispatched so far. The
  dispatch to a machine whose name starts with \<open>fail\<close> fails, the dispatch to the machine
  \<open>slow\<close> waits, and the plan of the machine \<open>broken\<close> cannot be generated.
\<close>

definition exampleNode :: "string \<Rightarrow> planEntry" where
  "exampleNode n =
     \<lparr>Machine_Namespace = ''fleet-default'', Machine_Name = n, Machine_Status_NodeRef = None,
      Metadata_Labels = [(''role'', ''etcd'')]\<rparr>"

definition examplePlanner :: "(nat, unit, planEntry list, string list) Planner" where
  "examplePlanner =
     \<lparr>collect = (\<lambda>clusterPlan include. filter include clusterPlan),
      isEtcd = (\<lambda>entry. (''role'', ''etcd'') \<in> set (Metadata_Labels entry)),
      generatePlanWithConfigFiles =
        (\<lambda>controlPlane tokensSecret entry joinServer.
           (\<lparr>Files = [], Instructions = []\<rparr>, joinServer,
            if Machine_Name entry = ''broken'' then Some (errorString ''no config'') else None)),
      generateInstallInstructionWithSkipStart =
        (\<lambda>controlPlane entry. \<lparr>Instruction_Name = ''install'', Command = ''sh'', Args = []\<rparr>),
      GetRuntimeCommand = (\<lambda>version. ''rke2''),
      assignAndCheckPlan =
        (\<lambda>store msg entry nodePlan joinedServer minSuccess maxFail.
           (store @ [Machine_Name entry],
            if take 4 (Machine_Name entry) = ''fail'' then Some (errorString (Machine_Name entry @ '' failed''))
            else if Machine_Name entry = ''slow'' then Some (errWaiting ''slow waiting'')
            else None)),
      findInitNode = (\<lambda>controlPlane clusterPlan. (True, ''server'', None)),
      runEtcdSnapshotManagementServiceStart =
        (\<lambda>store controlPlane tokensSecret clusterPlan include msg. (store, None))\<rparr>"

section \<open>Properties of the phase state\<close>

lemma DeepEqual_iff: "DeepEqual a b \<longleftrightarrow> a = b"
  by (simp add: DeepEqual_def split: option.splits)

text \<open>
  Claim C1. The phase-state setter returns the status unchanged and no error when the
  stored phase is the given phase and the stored request is deep-equal to the given one;
  otherwise it writes the phase and the request and returns the waiting error. A nil error
  therefore never comes with a modified status, and calling the setter again on its own
  result with the same arguments changes nothing and returns no error.
\<close>

theorem setEtcdSnapshotCreateState_spec:
  "(ETCDSnapshotCreatePhase status = phase \<and> DeepEqual (ETCDSnapshotCreate status) create \<longrightarrow>
      setEtcdSnapshotCreateState status create phase = (status, None)) \<and>
   (\<not> (ETCDSnapshotCreatePhase status = phase \<and> DeepEqual (ETCDSnapshotCreate status) create) \<longrightarrow>
      (\<exists>msg. setEtcdSnapshotCreateState status create phase =
         (status\<lparr>ETCDSnapshotCreatePhase := phase, ETCDSnapshotCreate := create\<rparr>,
          Some (errWaiting msg)))) \<and>
   (snd (setEtcdSnapshotCreateState status create phase) = None \<longrightarrow>
      fst (setEtcdSnapshotCreateState status create phase) = status) \<and>
   setEtcdSnapshotCreateState (fst (setEtcdSnapshotCreateState status create phase)) create phase =
     (fst (setEtcdSnapshotCreateState status create phase), None)"
  by (auto simp: setEtcdSnapshotCreateState_def DeepEqual_iff)

theorem setEtcdSnapshotCreateState_spec_witness:
  "setEtcdSnapshotCreateState
     \<lparr>ETCDSnapshotCreatePhase = ETCDSnapshotPhaseStarted, ETCDSnapshotCreate = Some (1::int),
      Initialized = True, Bootstrapped = True\<rparr> (Some 1) ETCDSnapshotPhaseStarted =
     (\<lparr>ETCDSnapshotCreatePhase = ETCDSnapshotPhaseStarted, ETCDSnapshotCreate = Some (1::int),
       Initialized = True, Bootstrapped = True\<rparr>, None) \<and>
   (\<exists>msg. setEtcdSnapshotCreateState
     \<lparr>ETCDSnapshotCreatePhase = ETCDSnapshotPhaseStarted, ETCDSnapshotCreate = Some (1::int),
      Initialized = True, Bootstrapped = True\<rparr> (Some 2) ETCDSnapshotPhaseFailed =
     (\<lparr>ETCDSnapshotCreatePhase = ETCDSnapshotPhaseFailed, ETCDSnapshotCreate = Some (2::int),
       Initialized = True, Bootstrapped = True\<rparr>, Some (errWaiting msg)))"
  using setEtcdSnapshotCreateState_spec
      [of "\<lparr>ETCDSnapshotCreatePhase = ETCDSnapshotPhaseStarted, ETCDSnapshotCreate = Some (1::int),
            Initialized = True, Bootstrapped = True\<rparr>" ETCDSnapshotPhaseStarted "Some 1"]
    setEtcdSnapshotCreateState_spec
      [of "\<lparr>ETCDSnapshotCreatePhase = ETCDSnapshotPhaseStarted, ETCDSnapshotCreate = Some (1::int),
            Initialized = True, Bootstrapped = True\<rparr>" ETCDSnapshotPhaseFailed "Some 2"]
  by (simp add: DeepEqual_def)

section \<open>Properties of the S3 arguments\<close>

lemma filter_if: "filter P (if c then xs else ys) = (if c then filter P xs else filter P ys)"
  by (cases c) simp_all

lemma fst_if: "fst (if c then p else q) = (if c then fst p else fst q)"
  by (cases c) simp_all

lemma snd_if: "snd (if c then p else q) = (if c then snd p else snd q)"
  by (cases c) simp_all

lemmas ToArgs_unfold = ToArgs_def Let_def first_def filter_if fst_if snd_if

lemmas example_defs =
  ToArgs_def S3Enabled_def getS3Credential_def credName_def blankTarget_def exampleS3Args_def
  exampleSecrets_def exampleControlPlane_def dataString_def emptyCredential_def first_def
  HasSuffix_def s3CAName_def Errorf_w_def Let_def

text \<open>
  Claim C3, as the code has it. A target that sets none of bucket, endpoint, folder,
  credential reference and region is not enabled, and \<open>ToArgs\<close> returns nothing for it,
  whatever its flag that skips the verification and its endpoint CA are. For an enabled
  target whose credential resolves, the arguments of \<open>ToArgs\<close> hold, for each of bucket,
  region, folder and endpoint, exactly one argument of that key when the request or the
  credential sets the field, with the value of the request when it is not empty and the
  value of the credential otherwise; the flag that skips the verification is there exactly
  when either side sets it; the access key and the secret key come from the credential
  alone, the secret key as an argument or in the environment.
\<close>

theorem ToArgs_precedence:
  "(\<not> S3Enabled (Some s3) \<longrightarrow> ToArgs s (Some s3) cp pfx inEnv = ([], [], [], None)) \<and>
   (S3Enabled (Some s3) \<and> getS3Credential s (Namespace cp) (credName s3 cp) = (c, None) \<and>
    ToArgs s (Some s3) cp pfx inEnv = (args, env, files, err) \<longrightarrow>
     filter (prefix (''--'' @ pfx @ ''s3-bucket='')) args =
       (if S3_Bucket s3 \<noteq> [] then [''--'' @ pfx @ ''s3-bucket='' @ S3_Bucket s3]
        else if Bucket c \<noteq> [] then [''--'' @ pfx @ ''s3-bucket='' @ Bucket c] else []) \<and>
     filter (prefix (''--'' @ pfx @ ''s3-region='')) args =
       (if S3_Region s3 \<noteq> [] then [''--'' @ pfx @ ''s3-region='' @ S3_Region s3]
        else if Region c \<noteq> [] then [''--'' @ pfx @ ''s3-region='' @ Region c] else []) \<and>
     filter (prefix (''--'' @ pfx @ ''s3-folder='')) args =
       (if S3_Folder s3 \<noteq> [] then [''--'' @ pfx @ ''s3-folder='' @ S3_Folder s3]
        else if Folder c \<noteq> [] then [''--'' @ pfx @ ''s3-folder='' @ Folder c] else []) \<and>
     filter (prefix (''--'' @ pfx @ ''s3-endpoint='')) args =
       (if S3_Endpoint s3 \<noteq> [] then [''--'' @ pfx @ ''s3-endpoint='' @ S3_Endpoint s3]
        else if Endpoint c \<noteq> [] then [''--'' @ pfx @ ''s3-endpoint='' @ Endpoint c] else []) \<and>
     filter (\<lambda>a. a = ''--'' @ pfx @ ''s3-skip-ssl-verify'') args =
       (if S3_SkipSSLVerify s3 \<or> SkipSSLVerify c then [''--'' @ pfx @ ''s3-skip-ssl-verify''] else []) \<and>
     filter (prefix (''--'' @ pfx @ ''s3-access-key='')) args =
       (if AccessKey c \<noteq> [] then [''--'' @ pfx @ ''s3-access-key='' @ AccessKey c] else []) \<and>
     filter (prefix (''--'' @ pfx @ ''s3-secret-key='')) args =
       (if SecretKey c \<noteq> [] \<and> \<not> inEnv then [''--'' @ pfx @ ''s3-secret-key='' @ SecretKey c] else []) \<and>
     env = (if SecretKey c \<noteq> [] \<and> inEnv then [''AWS_SECRET_ACCESS_KEY='' @ SecretKey c] else []) \<and>
     err = None)"
  (is "?disabled \<and> (?pre \<longrightarrow> ?post)")
proof -
  have dis: ?disabled
    by (simp add: ToArgs_def)
  have main: ?post
    if en: "S3Enabled (Some s3)"
      and cred: "getS3Credential s (Namespace cp) (credName s3 cp) = (c, None)"
      and res: "ToArgs s (Some s3) cp pfx inEnv = (args, env, files, err)"
  proof -
  have a: "args = fst (ToArgs s (Some s3) cp pfx inEnv)"
    and e: "env = fst (snd (ToArgs s (Some s3) cp pfx inEnv))"
    and r: "err = snd (snd (snd (ToArgs s (Some s3) cp pfx inEnv)))"
    by (simp_all add: res)
  have 1: "filter (prefix (''--'' @ pfx @ ''s3-bucket='')) args =
       (if S3_Bucket s3 \<noteq> [] then [''--'' @ pfx @ ''s3-bucket='' @ S3_Bucket s3]
        else if Bucket c \<noteq> [] then [''--'' @ pfx @ ''s3-bucket='' @ Bucket c] else [])"
    unfolding a using en cred
    by (simp add: ToArgs_unfold split del: if_split cong: if_cong, auto?)
  have 2: "filter (prefix (''--'' @ pfx @ ''s3-region='')) args =
       (if S3_Region s3 \<noteq> [] then [''--'' @ pfx @ ''s3-region='' @ S3_Region s3]
        else if Region c \<noteq> [] then [''--'' @ pfx @ ''s3-region='' @ Region c] else [])"
    unfolding a using en cred
    by (simp add: ToArgs_unfold split del: if_split cong: if_cong, auto?)
  have 3: "filter (prefix (''--'' @ pfx @ ''s3-folder='')) args =
       (if S3_Folder s3 \<noteq> [] then [''--'' @ pfx @ ''s3-folder='' @ S3_Folder s3]
        else if Folder c \<noteq> [] then [''--'' @ pfx @ ''s3-folder='' @ Folder c] else [])"
    unfolding a using en cred
    by (simp add: ToArgs_unfold split del: if_split cong: if_cong, auto?)
  have 4: "filter (prefix (''--'' @ pfx @ ''s3-endpoint='')) args =
       (if S3_Endpoint s3 \<noteq> [] then [''--'' @ pfx @ ''s3-endpoint='' @ S3_Endpoint s3]
        else if Endpoint c \<noteq> [] then [''--'' @ pfx @ ''s3-endpoint='' @ Endpoint c] else [])"
    unfolding a using en cred
    by (simp add: ToArgs_unfold split del: if_split cong: if_cong, auto?)
  have 5: "filter (\<lambda>a. a = ''--'' @ pfx @ ''s3-skip-ssl-verify'') args =
       (if S3_SkipSSLVerify s3 \<or> SkipSSLVerify c then [''--'' @ pfx @ ''s3-skip-ssl-verify''] else [])"
    unfolding a using en cred
    by (simp add: ToArgs_unfold split del: if_split cong: if_cong, auto?)
  have 6: "filter (prefix (''--'' @ pfx @ ''s3-access-key='')) args =
       (if AccessKey c \<noteq> [] then [''--'' @ pfx @ ''s3-access-key='' @ AccessKey c] else [])"
    unfolding a using en cred
    by (simp add: ToArgs_unfold split del: if_split cong: if_cong, auto?)
  have 7: "filter (prefix (''--'' @ pfx @ ''s3-secret-key='')) args =
       (if SecretKey c \<noteq> [] \<and> \<not> inEnv then [''--'' @ pfx @ ''s3-secret-key='' @ SecretKey c] else [])"
    unfolding a using en cred
    by (simp add: ToArgs_unfold split del: if_split cong: if_cong, auto?)
  have 8: "env = (if SecretKey c \<noteq> [] \<and> inEnv then [''AWS_SECRET_ACCESS_KEY='' @ SecretKey c] else [])"
    unfolding e using en cred
    by (simp add: ToArgs_unfold split del: if_split cong: if_cong, auto?)
  have 9: "err = None"
    unfolding r using en cred
    by (simp add: ToArgs_unfold split del: if_split cong: if_cong, auto?)
    show ?thesis using 1 2 3 4 5 6 7 8 9 by blast
  qed
  show ?thesis using dis main by blast
qed

text \<open>The two examples of the claim: an empty region of the request takes the region
  \<open>us-east-1\<close> of the credential, and the region \<open>eu-west-1\<close> of the request wins over it.
  A target that sets only the flag that skips the verification is not enabled.\<close>

theorem ToArgs_precedence_witness:
  "ToArgs exampleS3Args (Some (blankTarget\<lparr>S3_CloudCredentialName := ''east''\<rparr>))
      exampleControlPlane [] False = ([''--s3-region=us-east-1'', ''--s3''], [], [], None) \<and>
   filter (prefix ''--s3-region='') [''--s3-region=us-east-1'', ''--s3''] = [''--s3-region=us-east-1''] \<and>
   ToArgs exampleS3Args (Some (blankTarget\<lparr>S3_CloudCredentialName := ''east'', S3_Region := ''eu-west-1''\<rparr>))
      exampleControlPlane [] False = ([''--s3-region=eu-west-1'', ''--s3''], [], [], None) \<and>
   filter (prefix ''--s3-region='') [''--s3-region=eu-west-1'', ''--s3''] = [''--s3-region=eu-west-1''] \<and>
   \<not> S3Enabled (Some (blankTarget\<lparr>S3_SkipSSLVerify := True\<rparr>)) \<and>
   ToArgs exampleS3Args (Some (blankTarget\<lparr>S3_SkipSSLVerify := True\<rparr>)) exampleControlPlane [] False =
     ([], [], [], None)"
proof -
  let ?t1 = "blankTarget\<lparr>S3_CloudCredentialName := ''east''\<rparr>"
  let ?t2 = "blankTarget\<lparr>S3_CloudCredentialName := ''east'', S3_Region := ''eu-west-1''\<rparr>"
  let ?t3 = "blankTarget\<lparr>S3_SkipSSLVerify := True\<rparr>"
  let ?c = "emptyCredential\<lparr>Region := ''us-east-1''\<rparr>"
  have e1: "S3Enabled (Some ?t1)" and e2: "S3Enabled (Some ?t2)" and e3: "\<not> S3Enabled (Some ?t3)"
    by (simp_all add: S3Enabled_def blankTarget_def)
  have c1: "getS3Credential exampleS3Args (Namespace exampleControlPlane)
      (credName ?t1 exampleControlPlane) = (?c, None)"
    by (simp add: example_defs)
  have c2: "getS3Credential exampleS3Args (Namespace exampleControlPlane)
      (credName ?t2 exampleControlPlane) = (?c, None)"
    by (simp add: example_defs)
  have r1: "ToArgs exampleS3Args (Some ?t1) exampleControlPlane [] False =
      ([''--s3-region=us-east-1'', ''--s3''], [], [], None)"
    by (simp add: example_defs)
  have r2: "ToArgs exampleS3Args (Some ?t2) exampleControlPlane [] False =
      ([''--s3-region=eu-west-1'', ''--s3''], [], [], None)"
    by (simp add: example_defs)
  have w1: "filter (prefix (''--'' @ [] @ ''s3-region='')) [''--s3-region=us-east-1'', ''--s3''] =
      (if S3_Region ?t1 \<noteq> [] then [''--'' @ [] @ ''s3-region='' @ S3_Region ?t1]
       else if Region ?c \<noteq> [] then [''--'' @ [] @ ''s3-region='' @ Region ?c] else [])"
    using ToArgs_precedence [of ?t1 exampleS3Args exampleControlPlane "[]" False ?c
        "[''--s3-region=us-east-1'', ''--s3'']" "[]" "[]" None] e1 c1 r1
    by blast
  have w2: "filter (prefix (''--'' @ [] @ ''s3-region='')) [''--s3-region=eu-west-1'', ''--s3''] =
      (if S3_Region ?t2 \<noteq> [] then [''--'' @ [] @ ''s3-region='' @ S3_Region ?t2]
       else if Region ?c \<noteq> [] then [''--'' @ [] @ ''s3-region='' @ Region ?c] else [])"
    using ToArgs_precedence [of ?t2 exampleS3Args exampleControlPlane "[]" False ?c
        "[''--s3-region=eu-west-1'', ''--s3'']" "[]" "[]" None] e2 c2 r2
    by blast
  have w3: "ToArgs exampleS3Args (Some ?t3) exampleControlPlane [] False = ([], [], [], None)"
    using ToArgs_precedence [of ?t3 exampleS3Args exampleControlPlane "[]" False ?c
        "[]" "[]" "[]" None] e3
    by blast
  show ?thesis
    using w1 w2 w3 r1 r2 e3
    by (simp add: blankTarget_def emptyCredential_def)
qed

text \<open>
  The claim as it is stated, for every target, fails on a target that is not enabled: the
  request sets the flag that skips the verification and none of the five fields that
  enable the target, and \<open>ToArgs\<close> returns no argument at all, so the flag is not emitted.
\<close>

theorem ToArgs_precedence_counterexample:
  "S3_SkipSSLVerify (blankTarget\<lparr>S3_SkipSSLVerify := True\<rparr>) \<and>
   ToArgs exampleS3Args (Some (blankTarget\<lparr>S3_SkipSSLVerify := True\<rparr>)) exampleControlPlane [] False =
     ([], [], [], None) \<and>
   ''--s3-skip-ssl-verify'' \<notin>
     set (fst (ToArgs exampleS3Args (Some (blankTarget\<lparr>S3_SkipSSLVerify := True\<rparr>))
                 exampleControlPlane [] False))"
  by (simp add: ToArgs_def S3Enabled_def blankTarget_def)

text \<open>
  Claim C4. Let \<open>v\<close> be the merged endpoint CA of an enabled target whose credential
  resolves. When \<open>v\<close> is the endpoint CA of the request and ends with \<open>.crt\<close>, the only
  argument of the key \<open>s3-endpoint-ca\<close> is \<open>v\<close> itself, and the files are one file with the
  CA of the credential at the path \<open>v\<close> exactly when the CA of the credential is not empty
  and the path derived from its digest is \<open>v\<close>, and no file otherwise. When \<open>v\<close> is not
  empty and not such a path, the files are one file with the content \<open>v\<close> at the path
  derived from the digest of \<open>v\<close>, and the only argument of the key is that path. The path
  is a function of the control plane and the content alone.
\<close>

theorem ToArgs_endpointCA:
  assumes en: "S3Enabled (Some s3)"
    and cred: "getS3Credential s (Namespace cp) (credName s3 cp) = (c, None)"
    and res: "ToArgs s (Some s3) cp pfx inEnv = (args, env, files, err)"
    and v: "v = first (S3_EndpointCA s3) (EndpointCA c)"
  shows "(v = [] \<longrightarrow> filter (prefix (''--'' @ pfx @ ''s3-endpoint-ca='')) args = [] \<and> files = []) \<and>
     (v \<noteq> [] \<and> v = S3_EndpointCA s3 \<and> HasSuffix v ''.crt'' \<longrightarrow>
        filter (prefix (''--'' @ pfx @ ''s3-endpoint-ca='')) args = [''--'' @ pfx @ ''s3-endpoint-ca='' @ v] \<and>
        files = (if EndpointCA c \<noteq> [] \<and> configFile s cp (s3CAName s (EndpointCA c)) = v
                 then [\<lparr>Content = EncodeToString s (EndpointCA c), Path = v\<rparr>] else [])) \<and>
     (v \<noteq> [] \<and> \<not> (v = S3_EndpointCA s3 \<and> HasSuffix v ''.crt'') \<longrightarrow>
        filter (prefix (''--'' @ pfx @ ''s3-endpoint-ca='')) args =
          [''--'' @ pfx @ ''s3-endpoint-ca='' @ configFile s cp (s3CAName s v)] \<and>
        files = [\<lparr>Content = EncodeToString s v, Path = configFile s cp (s3CAName s v)\<rparr>])"
proof -
  have a: "args = fst (ToArgs s (Some s3) cp pfx inEnv)"
    and f: "files = fst (snd (snd (ToArgs s (Some s3) cp pfx inEnv)))"
    by (simp_all add: res)
  have 1: "filter (prefix (''--'' @ pfx @ ''s3-endpoint-ca='')) args =
      (if v = [] then []
       else if v = S3_EndpointCA s3 \<and> HasSuffix v ''.crt'' then [''--'' @ pfx @ ''s3-endpoint-ca='' @ v]
       else [''--'' @ pfx @ ''s3-endpoint-ca='' @ configFile s cp (s3CAName s v)])"
    unfolding a v using en cred
    by (simp add: ToArgs_unfold split del: if_split cong: if_cong, auto?)
  have 2: "files =
      (if v = [] then []
       else if v = S3_EndpointCA s3 \<and> HasSuffix v ''.crt'' then
         (if EndpointCA c \<noteq> [] \<and> configFile s cp (s3CAName s (EndpointCA c)) = v
          then [\<lparr>Content = EncodeToString s (EndpointCA c), Path = v\<rparr>] else [])
       else [\<lparr>Content = EncodeToString s v, Path = configFile s cp (s3CAName s v)\<rparr>])"
    unfolding f v using en cred
    by (simp add: ToArgs_unfold split del: if_split cong: if_cong, auto?)
  show ?thesis
  proof (cases "v = []")
    case True
    then show ?thesis unfolding 1 2 by simp
  next
    case False
    show ?thesis
    proof (cases "v = S3_EndpointCA s3 \<and> HasSuffix v ''.crt''")
      case True
      with False show ?thesis unfolding 1 2 by simp
    next
      case no: False
      have 3: "filter (prefix (''--'' @ pfx @ ''s3-endpoint-ca='')) args =
          [''--'' @ pfx @ ''s3-endpoint-ca='' @ configFile s cp (s3CAName s v)]"
        using 1 False no by simp
      have 4: "files = [\<lparr>Content = EncodeToString s v, Path = configFile s cp (s3CAName s v)\<rparr>]"
        using 2 False no by simp
      show ?thesis using 3 4 False no by blast
    qed
  qed
qed

text \<open>
  The CA of the credential alone gives a file at the path derived from its digest; a later
  request that names that path as its endpoint CA gives the same argument and the same
  single file.
\<close>

theorem ToArgs_endpointCA_witness:
  "ToArgs exampleS3Args (Some (blankTarget\<lparr>S3_CloudCredentialName := ''ca''\<rparr>))
      exampleControlPlane [] False =
     ([''--s3-endpoint-ca=/etc/s3-endpoint-ca-PEM.crt'', ''--s3''], [],
      [\<lparr>Content = ''PEM'', Path = ''/etc/s3-endpoint-ca-PEM.crt''\<rparr>], None) \<and>
   ToArgs exampleS3Args
      (Some (blankTarget\<lparr>S3_CloudCredentialName := ''ca'', S3_EndpointCA := ''/etc/s3-endpoint-ca-PEM.crt''\<rparr>))
      exampleControlPlane [] False =
     ([''--s3-endpoint-ca=/etc/s3-endpoint-ca-PEM.crt'', ''--s3''], [],
      [\<lparr>Content = ''PEM'', Path = ''/etc/s3-endpoint-ca-PEM.crt''\<rparr>], None) \<and>
   filter (prefix ''--s3-endpoint-ca='') [''--s3-endpoint-ca=/etc/s3-endpoint-ca-PEM.crt'', ''--s3''] =
     [''--s3-endpoint-ca=/etc/s3-endpoint-ca-PEM.crt''] \<and>
   HasSuffix ''/etc/s3-endpoint-ca-PEM.crt'' ''.crt'' \<and>
   configFile exampleS3Args exampleControlPlane (s3CAName exampleS3Args ''PEM'') =
     ''/etc/s3-endpoint-ca-PEM.crt''"
proof -
  let ?t1 = "blankTarget\<lparr>S3_CloudCredentialName := ''ca''\<rparr>"
  let ?t2 = "blankTarget\<lparr>S3_CloudCredentialName := ''ca'', S3_EndpointCA := ''/etc/s3-endpoint-ca-PEM.crt''\<rparr>"
  let ?c = "emptyCredential\<lparr>EndpointCA := ''PEM''\<rparr>"
  have e1: "S3Enabled (Some ?t1)" and e2: "S3Enabled (Some ?t2)"
    by (simp_all add: S3Enabled_def blankTarget_def)
  have c1: "getS3Credential exampleS3Args (Namespace exampleControlPlane)
      (credName ?t1 exampleControlPlane) = (?c, None)"
    by (simp add: example_defs)
  have c2: "getS3Credential exampleS3Args (Namespace exampleControlPlane)
      (credName ?t2 exampleControlPlane) = (?c, None)"
    by (simp add: example_defs)
  have r1: "ToArgs exampleS3Args (Some ?t1) exampleControlPlane [] False =
      ([''--s3-endpoint-ca=/etc/s3-endpoint-ca-PEM.crt'', ''--s3''], [],
       [\<lparr>Content = ''PEM'', Path = ''/etc/s3-endpoint-ca-PEM.crt''\<rparr>], None)"
    by (simp add: example_defs)
  have r2: "ToArgs exampleS3Args (Some ?t2) exampleControlPlane [] False =
      ([''--s3-endpoint-ca=/etc/s3-endpoint-ca-PEM.crt'', ''--s3''], [],
       [\<lparr>Content = ''PEM'', Path = ''/etc/s3-endpoint-ca-PEM.crt''\<rparr>], None)"
    by (simp add: example_defs)
  have s: "HasSuffix ''/etc/s3-endpoint-ca-PEM.crt'' ''.crt''"
    by (simp add: HasSuffix_def)
  have p: "configFile exampleS3Args exampleControlPlane (s3CAName exampleS3Args ''PEM'') =
      ''/etc/s3-endpoint-ca-PEM.crt''"
    by (simp add: exampleS3Args_def s3CAName_def)
  show ?thesis
    using ToArgs_endpointCA [OF e1 c1 r1 refl] ToArgs_endpointCA [OF e2 c2 r2 refl] r1 r2 s p
    by simp
qed

text \<open>
  Claim C6. Without a target, or with a target whose bucket, endpoint, folder, credential
  reference and region are all empty, \<open>ToArgs\<close> returns no argument, no environment, no
  file and no error, whatever the secret cache holds and whatever credential reference the
  cluster-level configuration names: no credential is looked up.
\<close>

theorem ToArgs_disabled:
  "ToArgs s None controlPlane pfx secretKeyInEnv = ([], [], [], None) \<and>
   (S3_Bucket t = [] \<and> S3_Endpoint t = [] \<and> S3_Folder t = [] \<and>
    S3_CloudCredentialName t = [] \<and> S3_Region t = [] \<longrightarrow>
      ToArgs s (Some t) controlPlane pfx secretKeyInEnv = ([], [], [], None))"
  by (simp add: ToArgs_def S3Enabled_def)

text \<open>The cluster-level configuration of the example names a credential that the secret
  cache does not hold; the blank target still gives the empty result and no error.\<close>

theorem ToArgs_disabled_witness:
  "S3_Bucket blankTarget = [] \<and> S3_Endpoint blankTarget = [] \<and> S3_Folder blankTarget = [] \<and>
   S3_CloudCredentialName blankTarget = [] \<and> S3_Region blankTarget = [] \<and>
   ToArgs exampleS3Args (Some blankTarget) exampleControlPlane ''etcd-'' True = ([], [], [], None) \<and>
   fst (getS3Credential exampleS3Args (Namespace exampleControlPlane) ''missing'') = emptyCredential \<and>
   snd (getS3Credential exampleS3Args (Namespace exampleControlPlane) ''missing'') \<noteq> None"
proof -
  have b: "S3_Bucket blankTarget = [] \<and> S3_Endpoint blankTarget = [] \<and> S3_Folder blankTarget = [] \<and>
      S3_CloudCredentialName blankTarget = [] \<and> S3_Region blankTarget = []"
    by (simp add: blankTarget_def)
  have g: "fst (getS3Credential exampleS3Args (Namespace exampleControlPlane) ''missing'') = emptyCredential \<and>
      snd (getS3Credential exampleS3Args (Namespace exampleControlPlane) ''missing'') \<noteq> None"
    by (simp add: getS3Credential_def exampleS3Args_def exampleSecrets_def)
  show ?thesis
    using ToArgs_disabled [of exampleS3Args exampleControlPlane "''etcd-''" True blankTarget] b g
    by simp
qed

text \<open>
  Claim C9. \<open>getS3Credential\<close> with an empty name returns the empty credential and no
  error. With a name whose lookup fails, it returns the empty credential and an error that
  wraps the failure of the lookup: its text is the context
  \<open>failed to lookup etcdSnapshotCloudCredentialName: \<close> followed by the text of the failure,
  and it is a waiting error exactly when the failure is one.
\<close>

theorem getS3Credential_spec:
  "getS3Credential s ns [] = (emptyCredential, None) \<and>
   (n \<noteq> [] \<and> GetCloudCredentialSecret s ns n = Inl e \<longrightarrow>
      (\<exists>w. getS3Credential s ns n = (emptyCredential, Some w) \<and> Unwrap w = Some e \<and>
           Error w = ''failed to lookup etcdSnapshotCloudCredentialName: '' @ Error e \<and>
           IsErrWaiting w = IsErrWaiting e))"
  by (simp add: getS3Credential_def Errorf_w_def)

theorem getS3Credential_spec_witness:
  "GetCloudCredentialSecret exampleS3Args ''fleet-default'' ''missing'' = Inl (errorString ''secret not found'') \<and>
   getS3Credential exampleS3Args ''fleet-default'' ''missing'' =
     (emptyCredential,
      Some (wrapError ''failed to lookup etcdSnapshotCloudCredentialName: secret not found''
              (errorString ''secret not found'')))"
proof -
  have l: "GetCloudCredentialSecret exampleS3Args ''fleet-default'' ''missing'' =
      Inl (errorString ''secret not found'')"
    by (simp add: exampleS3Args_def exampleSecrets_def)
  have n: "''missing'' \<noteq> []" by simp
  obtain w where "getS3Credential exampleS3Args ''fleet-default'' ''missing'' = (emptyCredential, Some w)"
    using getS3Credential_spec [of exampleS3Args "''fleet-default''" "''missing''" "errorString ''secret not found''"] l n
    by blast
  then show ?thesis using l
    by (simp add: getS3Credential_def Errorf_w_def)
qed

text \<open>
  Claim C10. With the secret key asked for in the environment, no argument of \<open>ToArgs\<close>
  has the key \<open>s3-secret-key\<close>, and for an enabled target whose credential resolves the
  environment is the one assignment \<open>AWS_SECRET_ACCESS_KEY=<secret>\<close> when the secret key
  is not empty. When the secret key is the only value there is (every other merged field
  empty or false), the arguments are empty, so the closing flag \<open>--<prefix>s3\<close> is absent,
  while the environment is not empty.
\<close>

theorem ToArgs_secretKeyInEnv:
  assumes res: "ToArgs s s3opt cp pfx True = (args, env, files, err)"
  shows "filter (prefix (''--'' @ pfx @ ''s3-secret-key='')) args = [] \<and>
     (s3opt = Some s3 \<and> S3Enabled (Some s3) \<and>
      getS3Credential s (Namespace cp) (credName s3 cp) = (c, None) \<longrightarrow>
        env = (if SecretKey c \<noteq> [] then [''AWS_SECRET_ACCESS_KEY='' @ SecretKey c] else []) \<and>
        (SecretKey c \<noteq> [] \<and> S3_Bucket s3 = [] \<and> Bucket c = [] \<and> AccessKey c = [] \<and>
         S3_Region s3 = [] \<and> Region c = [] \<and> S3_Folder s3 = [] \<and> Folder c = [] \<and>
         S3_Endpoint s3 = [] \<and> Endpoint c = [] \<and> \<not> S3_SkipSSLVerify s3 \<and> \<not> SkipSSLVerify c \<and>
         S3_EndpointCA s3 = [] \<and> EndpointCA c = [] \<longrightarrow>
           args = [] \<and> env = [''AWS_SECRET_ACCESS_KEY='' @ SecretKey c] \<and> files = [] \<and> err = None))"
proof -
  have a: "args = fst (ToArgs s s3opt cp pfx True)"
    and e: "env = fst (snd (ToArgs s s3opt cp pfx True))"
    and f: "files = fst (snd (snd (ToArgs s s3opt cp pfx True)))"
    and r: "err = snd (snd (snd (ToArgs s s3opt cp pfx True)))"
    by (simp_all add: res)
  have 1: "filter (prefix (''--'' @ pfx @ ''s3-secret-key='')) args = []"
  proof (cases s3opt)
    case None
    then show ?thesis unfolding a by (simp add: ToArgs_def)
  next
    case (Some t)
    show ?thesis
    proof (cases "S3Enabled (Some t)")
      case False
      then show ?thesis unfolding a Some by (simp add: ToArgs_def)
    next
      case True
      obtain c' e' where ce: "getS3Credential s (Namespace cp) (credName t cp) = (c', e')"
        by (cases "getS3Credential s (Namespace cp) (credName t cp)") auto
      show ?thesis
      proof (cases e')
        case None
        with True ce show ?thesis unfolding a Some
          by (simp add: ToArgs_unfold split del: if_split cong: if_cong, auto?)
      next
        case (Some x)
        with True ce show ?thesis unfolding a \<open>s3opt = Some t\<close>
          by (simp add: ToArgs_def)
      qed
    qed
  qed
  have 2: "env = (if SecretKey c \<noteq> [] then [''AWS_SECRET_ACCESS_KEY='' @ SecretKey c] else [])"
    if "s3opt = Some s3" "S3Enabled (Some s3)"
      "getS3Credential s (Namespace cp) (credName s3 cp) = (c, None)"
    unfolding e using that
    by (simp add: ToArgs_unfold split del: if_split cong: if_cong, auto?)
  have 3: "args = [] \<and> files = [] \<and> err = None"
    if "s3opt = Some s3" "S3Enabled (Some s3)"
      "getS3Credential s (Namespace cp) (credName s3 cp) = (c, None)"
      "S3_Bucket s3 = [] \<and> Bucket c = [] \<and> AccessKey c = [] \<and>
       S3_Region s3 = [] \<and> Region c = [] \<and> S3_Folder s3 = [] \<and> Folder c = [] \<and>
       S3_Endpoint s3 = [] \<and> Endpoint c = [] \<and> \<not> S3_SkipSSLVerify s3 \<and> \<not> SkipSSLVerify c \<and>
       S3_EndpointCA s3 = [] \<and> EndpointCA c = []"
    unfolding a f r using that
    by (simp add: ToArgs_def Let_def first_def)
  show ?thesis using 1 2 3 by simp
qed

theorem ToArgs_secretKeyInEnv_witness:
  "ToArgs exampleS3Args (Some (blankTarget\<lparr>S3_CloudCredentialName := ''keys''\<rparr>))
      exampleControlPlane [] True = ([], [''AWS_SECRET_ACCESS_KEY=hunter2''], [], None) \<and>
   S3Enabled (Some (blankTarget\<lparr>S3_CloudCredentialName := ''keys''\<rparr>)) \<and>
   getS3Credential exampleS3Args (Namespace exampleControlPlane)
      (credName (blankTarget\<lparr>S3_CloudCredentialName := ''keys''\<rparr>) exampleControlPlane) =
     (emptyCredential\<lparr>SecretKey := ''hunter2''\<rparr>, None)"
proof -
  let ?t = "blankTarget\<lparr>S3_CloudCredentialName := ''keys''\<rparr>"
  let ?c = "emptyCredential\<lparr>SecretKey := ''hunter2''\<rparr>"
  have e1: "S3Enabled (Some ?t)"
    by (simp add: S3Enabled_def blankTarget_def)
  have c1: "getS3Credential exampleS3Args (Namespace exampleControlPlane)
      (credName ?t exampleControlPlane) = (?c, None)"
    by (simp add: example_defs)
  have r1: "ToArgs exampleS3Args (Some ?t) exampleControlPlane [] True =
      ([], [''AWS_SECRET_ACCESS_KEY=hunter2''], [], None)"
    by (simp add: example_defs)
  show ?thesis
    using ToArgs_secretKeyInEnv [OF r1, of ?t ?c] e1 c1 r1
    by simp
qed

section \<open>Properties of the fan-out and of the started phase\<close>


lemma set_nonNil: "set (nonNil errs) = {e. Some e \<in> set errs}"
  by (induction errs rule: nonNil.induct) auto

lemma NewErrors_Error_text: "fin \<noteq> [] \<Longrightarrow> NewErrors_Error fin = Some (writeErrors [] fin)"
  by (cases fin; cases "tl fin") (auto simp: NewErrors_Error_def)

lemma loop_at_target:
  "ETCDSnapshotCreatePhase st = ETCDSnapshotPhaseFailed \<Longrightarrow> ETCDSnapshotCreate st = snap \<Longrightarrow>
   \<exists>b. createEtcdSnapshot_loop snap errs (st, fin, ss) = (st, fin @ nonNil errs, b)"
proof (induction errs arbitrary: fin ss)
  case Nil
  then show ?case by simp
next
  case (Cons x errs)
  show ?case
  proof (cases x)
    case None
    then show ?thesis using Cons by simp
  next
    case (Some e)
    have s: "setEtcdSnapshotCreateState st snap ETCDSnapshotPhaseFailed = (st, None)"
      using Cons.prems by (simp add: setEtcdSnapshotCreateState_def DeepEqual_iff)
    show ?thesis
      using Cons.IH [OF Cons.prems, of "fin @ [e]"] Some s by simp
  qed
qed

lemma loop_waiting:
  "\<forall>e \<in> set (nonNil errs). IsErrWaiting e \<Longrightarrow>
   createEtcdSnapshot_loop snap errs (st, fin, ss) = (st, fin @ nonNil errs, ss)"
proof (induction errs arbitrary: fin)
  case Nil
  then show ?case by simp
next
  case (Cons x errs)
  then show ?case by (cases x) simp_all
qed

lemma loop_terminal:
  "\<exists>e \<in> set (nonNil errs). \<not> IsErrWaiting e \<Longrightarrow>
   \<exists>b. createEtcdSnapshot_loop snap errs (st, fin, False) =
     (st\<lparr>ETCDSnapshotCreatePhase := ETCDSnapshotPhaseFailed, ETCDSnapshotCreate := snap\<rparr>,
      fin @ takeWhile IsErrWaiting (nonNil errs) @ [hd (dropWhile IsErrWaiting (nonNil errs))] @
        (if ETCDSnapshotCreatePhase st = ETCDSnapshotPhaseFailed \<and> ETCDSnapshotCreate st = snap
         then [] else [errWaiting ''refreshing etcd create state'']) @
        tl (dropWhile IsErrWaiting (nonNil errs)), b)"
proof (induction errs arbitrary: fin)
  case Nil
  then show ?case by simp
next
  case (Cons x errs)
  show ?case
  proof (cases x)
    case None
    then show ?thesis using Cons by simp
  next
    case (Some e)
    show ?thesis
    proof (cases "IsErrWaiting e")
      case True
      then have "\<exists>e \<in> set (nonNil errs). \<not> IsErrWaiting e"
        using Cons.prems Some by auto
      from Cons.IH [OF this, of "fin @ [e]"] show ?thesis
        using Some True by simp
    next
      case False
      let ?st = "st\<lparr>ETCDSnapshotCreatePhase := ETCDSnapshotPhaseFailed, ETCDSnapshotCreate := snap\<rparr>"
      show ?thesis
      proof (cases "ETCDSnapshotCreatePhase st = ETCDSnapshotPhaseFailed \<and> ETCDSnapshotCreate st = snap")
        case True
        then have eq: "?st = st" by simp
        have s: "setEtcdSnapshotCreateState st snap ETCDSnapshotPhaseFailed = (st, None)"
          using True by (simp add: setEtcdSnapshotCreateState_def DeepEqual_iff)
        obtain b where "createEtcdSnapshot_loop snap errs (st, fin @ [e], True) = (st, (fin @ [e]) @ nonNil errs, b)"
          using loop_at_target [of st snap errs "fin @ [e]" True] True by blast
        then show ?thesis using Some False s True eq by simp
      next
        case no: False
        have s: "setEtcdSnapshotCreateState st snap ETCDSnapshotPhaseFailed =
            (?st, Some (errWaiting ''refreshing etcd create state''))"
          using no by (auto simp: setEtcdSnapshotCreateState_def DeepEqual_iff)
        obtain b where "createEtcdSnapshot_loop snap errs
             (?st, fin @ [e] @ [errWaiting ''refreshing etcd create state''], False) =
            (?st, (fin @ [e] @ [errWaiting ''refreshing etcd create state'']) @ nonNil errs, b)"
          using loop_at_target [of ?st snap errs "fin @ [e] @ [errWaiting ''refreshing etcd create state'']" False]
          by auto
        then show ?thesis using Some False s no by simp
      qed
    qed
  qed
qed


lemma startOrRestart_stored:
  "ETCDSnapshotCreate status = Some r \<Longrightarrow>
   startOrRestartEtcdSnapshotCreate status (Some r) = (status, None)"
  by (simp add: startOrRestartEtcdSnapshotCreate_def DeepEqual_iff)

text \<open>
  Claim C2. In the started phase (the request is stored, so the switch is reached), let
  \<open>errs\<close> be what the fan-out returns. If one of its errors is not a waiting error, the
  status returned has the phase Failed and the request, and the error returned is a
  waiting error whose text joins every error of the fan-out, in order; the setter changes
  the status once, at the first error that is not a waiting error, and its own waiting
  error \<open>refreshing etcd create state\<close> follows that error in the text once (it is absent
  only when the status passed in had the phase Failed already). If the fan-out returns
  errors and all of them are waiting errors, the status is returned unchanged with a
  waiting error whose text joins them.
\<close>

theorem createEtcdSnapshot_started:
  assumes req: "Spec_ETCDSnapshotCreate (Spec cp) = Some r"
    and ready: "Initialized status \<and> Bootstrapped status"
    and init: "findInitNode p cp plan = (True, js, None) \<and> js \<noteq> []"
    and stored: "ETCDSnapshotCreate status = Some r"
    and phase: "ETCDSnapshotCreatePhase (Status cp) = ETCDSnapshotPhaseStarted"
    and fan: "runEtcdSnapshotCreate p store cp tok plan js = (store', errs)"
  shows "((\<exists>e \<in> set (nonNil errs). \<not> IsErrWaiting e) \<longrightarrow>
       createEtcdSnapshot p store cp status tok plan =
         Some (store',
               status\<lparr>ETCDSnapshotCreatePhase := ETCDSnapshotPhaseFailed, ETCDSnapshotCreate := Some r\<rparr>,
               Some (errWaiting (writeErrors []
                 (takeWhile IsErrWaiting (nonNil errs) @ [hd (dropWhile IsErrWaiting (nonNil errs))] @
                  (if ETCDSnapshotCreatePhase status = ETCDSnapshotPhaseFailed then []
                   else [errWaiting ''refreshing etcd create state'']) @
                  tl (dropWhile IsErrWaiting (nonNil errs))))))) \<and>
     (nonNil errs \<noteq> [] \<and> (\<forall>e \<in> set (nonNil errs). IsErrWaiting e) \<longrightarrow>
       createEtcdSnapshot p store cp status tok plan =
         Some (store', status, Some (errWaiting (writeErrors [] (nonNil errs)))))"
proof -
  have pre: "createEtcdSnapshot p store cp status tok plan =
      (if length errs > 0 then
         (case createEtcdSnapshot_loop (Some r) errs (status, [], False) of
            (status2, finErrs, stateSet) \<Rightarrow>
              (case NewErrors_Error finErrs of
                 None \<Rightarrow> None
               | Some text' \<Rightarrow> Some (store', status2, Some (errWaiting text'))))
       else
         (case setEtcdSnapshotCreateState status (Some r) ETCDSnapshotPhaseRestartCluster of
            (status2, err) \<Rightarrow> Some (store', status2, err)))"
    using req ready init phase fan
    by (simp add: createEtcdSnapshot_def startOrRestart_stored [OF stored] del: createEtcdSnapshot_loop.simps)
  have 1: ?thesis if t: "\<exists>e \<in> set (nonNil errs). \<not> IsErrWaiting e"
  proof -
    have ne: "errs \<noteq> []" using t by auto
    obtain b where l: "createEtcdSnapshot_loop (Some r) errs (status, [], False) =
       (status\<lparr>ETCDSnapshotCreatePhase := ETCDSnapshotPhaseFailed, ETCDSnapshotCreate := Some r\<rparr>,
        [] @ takeWhile IsErrWaiting (nonNil errs) @ [hd (dropWhile IsErrWaiting (nonNil errs))] @
          (if ETCDSnapshotCreatePhase status = ETCDSnapshotPhaseFailed \<and> ETCDSnapshotCreate status = Some r
           then [] else [errWaiting ''refreshing etcd create state'']) @
          tl (dropWhile IsErrWaiting (nonNil errs)), b)"
      using loop_terminal [OF t, of "Some r" status "[]"] by blast
    have "createEtcdSnapshot p store cp status tok plan =
         Some (store',
               status\<lparr>ETCDSnapshotCreatePhase := ETCDSnapshotPhaseFailed, ETCDSnapshotCreate := Some r\<rparr>,
               Some (errWaiting (writeErrors []
                 (takeWhile IsErrWaiting (nonNil errs) @ [hd (dropWhile IsErrWaiting (nonNil errs))] @
                  (if ETCDSnapshotCreatePhase status = ETCDSnapshotPhaseFailed then []
                   else [errWaiting ''refreshing etcd create state'']) @
                  tl (dropWhile IsErrWaiting (nonNil errs))))))"
      unfolding pre using ne l stored
      by (simp add: NewErrors_Error_text del: createEtcdSnapshot_loop.simps)
    moreover have "\<not> (nonNil errs \<noteq> [] \<and> (\<forall>e \<in> set (nonNil errs). IsErrWaiting e))"
      using t by blast
    ultimately show ?thesis using t by blast
  qed
  have 2: ?thesis if w: "\<forall>e \<in> set (nonNil errs). IsErrWaiting e"
  proof (cases "nonNil errs = []")
    case True
    then show ?thesis using w by simp
  next
    case False
    then have ne: "errs \<noteq> []" by auto
    have "createEtcdSnapshot p store cp status tok plan =
         Some (store', status, Some (errWaiting (writeErrors [] (nonNil errs))))"
      unfolding pre using ne False loop_waiting [OF w, of "Some r" status "[]" False]
      by (simp add: NewErrors_Error_text del: createEtcdSnapshot_loop.simps)
    then show ?thesis using w by blast
  qed
  show ?thesis using 1 2 by blast
qed

lemmas planner_defs =
  createEtcdSnapshot_def runEtcdSnapshotCreate_def generateEtcdSnapshotCreatePlan_def snapshotMsg_def
  examplePlanner_def exampleNode_def exampleControlPlane_def exampleStatus_def
  startOrRestartEtcdSnapshotCreate_def setEtcdSnapshotCreateState_def DeepEqual_def
  NewErrors_Error_def Let_def

text \<open>Two machines fail and one waits: the phase is Failed, the waiting error of the setter
  appears once, after the first failure. One machine waits and one succeeds: the status is
  unchanged.\<close>

theorem createEtcdSnapshot_started_witness:
  "createEtcdSnapshot examplePlanner [] exampleControlPlane exampleStatus ()
      [exampleNode ''fail-1'', exampleNode ''slow'', exampleNode ''fail-2''] =
     Some ([''fail-1'', ''slow'', ''fail-2''],
           exampleStatus\<lparr>ETCDSnapshotCreatePhase := ETCDSnapshotPhaseFailed\<rparr>,
           Some (errWaiting ''fail-1 failed, refreshing etcd create state, slow waiting, fail-2 failed'')) \<and>
   createEtcdSnapshot examplePlanner [] exampleControlPlane exampleStatus ()
      [exampleNode ''slow'', exampleNode ''fine''] =
     Some ([''slow'', ''fine''], exampleStatus, Some (errWaiting ''slow waiting''))"
proof -
  let ?plan1 = "[exampleNode ''fail-1'', exampleNode ''slow'', exampleNode ''fail-2'']"
  let ?plan2 = "[exampleNode ''slow'', exampleNode ''fine'']"
  have req: "Spec_ETCDSnapshotCreate (Spec exampleControlPlane) = Some 1"
    by (simp add: exampleControlPlane_def)
  have ready: "Initialized exampleStatus \<and> Bootstrapped exampleStatus"
    by (simp add: exampleStatus_def)
  have init1: "findInitNode examplePlanner exampleControlPlane ?plan1 = (True, ''server'', None) \<and> ''server'' \<noteq> []"
    by (simp add: examplePlanner_def)
  have init2: "findInitNode examplePlanner exampleControlPlane ?plan2 = (True, ''server'', None) \<and> ''server'' \<noteq> []"
    by (simp add: examplePlanner_def)
  have stored: "ETCDSnapshotCreate exampleStatus = Some 1"
    by (simp add: exampleStatus_def)
  have phase: "ETCDSnapshotCreatePhase (Status exampleControlPlane) = ETCDSnapshotPhaseStarted"
    by (simp add: exampleControlPlane_def exampleStatus_def)
  have fan1: "runEtcdSnapshotCreate examplePlanner [] exampleControlPlane () ?plan1 ''server'' =
      ([''fail-1'', ''slow'', ''fail-2''],
       [Some (errorString ''fail-1 failed''), Some (errWaiting ''slow waiting''),
        Some (errorString ''fail-2 failed'')])"
    by (simp add: planner_defs)
  have fan2: "runEtcdSnapshotCreate examplePlanner [] exampleControlPlane () ?plan2 ''server'' =
      ([''slow'', ''fine''], [Some (errWaiting ''slow waiting'')])"
    by (simp add: planner_defs)
  show ?thesis
    using createEtcdSnapshot_started [OF req ready init1 stored phase fan1]
      createEtcdSnapshot_started [OF req ready init2 stored phase fan2]
    by (simp add: exampleStatus_def)
qed

lemma loop_all_generated:
  "\<forall>x \<in> set servers. generates p cp tok js x \<Longrightarrow>
   runEtcdSnapshotCreate_loop p cp tok js servers store errs =
     (fst (dispatchEveryNode p cp tok js servers store),
      errs @ snd (dispatchEveryNode p cp tok js servers store))"
proof (induction servers arbitrary: store errs)
  case Nil
  then show ?case by simp
next
  case (Cons x servers)
  obtain createPlan joinedServer where g:
    "generateEtcdSnapshotCreatePlan p cp tok x js = (createPlan, joinedServer, None)"
    using Cons.prems
    by (cases "generateEtcdSnapshotCreatePlan p cp tok x js") (auto simp: generates_def)
  obtain store1 e where a:
    "assignAndCheckPlan p store (snapshotMsg x) x createPlan joinedServer 3 3 = (store1, e)"
    by (cases "assignAndCheckPlan p store (snapshotMsg x) x createPlan joinedServer 3 3") auto
  have rest: "\<forall>y \<in> set servers. generates p cp tok js y"
    using Cons.prems by simp
  show ?case
    using g a Cons.IH [OF rest, of store1]
    by (cases e) (simp_all add: split_beta)
qed

lemma loop_short_circuit:
  "\<forall>x \<in> set pre. generates p cp tok js x \<Longrightarrow>
   snd (snd (generateEtcdSnapshotCreatePlan p cp tok x js)) = Some g \<Longrightarrow>
   runEtcdSnapshotCreate_loop p cp tok js (pre @ x # post) store errs =
     (fst (dispatchEveryNode p cp tok js pre store), [Some g])"
proof (induction pre arbitrary: store errs)
  case Nil
  then show ?case
    by (cases "generateEtcdSnapshotCreatePlan p cp tok x js") auto
next
  case (Cons y pre)
  obtain createPlan joinedServer where g:
    "generateEtcdSnapshotCreatePlan p cp tok y js = (createPlan, joinedServer, None)"
    using Cons.prems(1)
    by (cases "generateEtcdSnapshotCreatePlan p cp tok y js") (auto simp: generates_def)
  obtain store1 e where a:
    "assignAndCheckPlan p store (snapshotMsg y) y createPlan joinedServer 3 3 = (store1, e)"
    by (cases "assignAndCheckPlan p store (snapshotMsg y) y createPlan joinedServer 3 3") auto
  have rest: "\<forall>z \<in> set pre. generates p cp tok js z"
    using Cons.prems(1) by simp
  show ?case
    using g a Cons.IH [OF rest Cons.prems(2), of store1]
    by (cases e) (simp_all add: split_beta)
qed

text \<open>
  Claim C5, as the code has it. Over a non-empty set of etcd nodes: when the plan of every
  node can be generated, the fan-out dispatches every node, in order, and returns every
  error of a dispatch that is not nil. When the plan of a node cannot be generated, the
  fan-out ends there: the nodes before it have been dispatched, no later node is, and the
  error of the generation is returned alone.
\<close>

theorem runEtcdSnapshotCreate_fan_out:
  assumes servers: "collect p plan (isEtcd p) = servers"
    and nonempty: "servers \<noteq> []"
  shows "((\<forall>x \<in> set servers. generates p cp tok js x) \<longrightarrow>
       runEtcdSnapshotCreate p store cp tok plan js = dispatchEveryNode p cp tok js servers store) \<and>
     (servers = pre @ x # post \<and> (\<forall>y \<in> set pre. generates p cp tok js y) \<and>
      snd (snd (generateEtcdSnapshotCreatePlan p cp tok x js)) = Some g \<longrightarrow>
       runEtcdSnapshotCreate p store cp tok plan js =
         (fst (dispatchEveryNode p cp tok js pre store), [Some g]))"
proof -
  have run: "runEtcdSnapshotCreate p store cp tok plan js =
      runEtcdSnapshotCreate_loop p cp tok js servers store []"
    using servers nonempty by (simp add: runEtcdSnapshotCreate_def)
  have 1: "runEtcdSnapshotCreate p store cp tok plan js = dispatchEveryNode p cp tok js servers store"
    if "\<forall>x \<in> set servers. generates p cp tok js x"
    unfolding run using loop_all_generated [OF that, of store "[]"] by simp
  have 2: "runEtcdSnapshotCreate p store cp tok plan js =
         (fst (dispatchEveryNode p cp tok js pre store), [Some g])"
    if "servers = pre @ x # post" "\<forall>y \<in> set pre. generates p cp tok js y"
      "snd (snd (generateEtcdSnapshotCreatePlan p cp tok x js)) = Some g"
    unfolding run that(1) using loop_short_circuit [OF that(2) that(3)] by simp
  show ?thesis using 1 2 by blast
qed

theorem runEtcdSnapshotCreate_fan_out_witness:
  "runEtcdSnapshotCreate examplePlanner [] exampleControlPlane ()
      [exampleNode ''fail-1'', exampleNode ''slow'', exampleNode ''fine''] ''server'' =
     ([''fail-1'', ''slow'', ''fine''],
      [Some (errorString ''fail-1 failed''), Some (errWaiting ''slow waiting'')]) \<and>
   dispatchEveryNode examplePlanner exampleControlPlane () ''server''
      [exampleNode ''fail-1'', exampleNode ''slow'', exampleNode ''fine''] [] =
     ([''fail-1'', ''slow'', ''fine''],
      [Some (errorString ''fail-1 failed''), Some (errWaiting ''slow waiting'')]) \<and>
   runEtcdSnapshotCreate examplePlanner [] exampleControlPlane ()
      [exampleNode ''slow'', exampleNode ''broken'', exampleNode ''fine''] ''server'' =
     ([''slow''], [Some (errorString ''no config'')])"
proof -
  let ?plan = "[exampleNode ''fail-1'', exampleNode ''slow'', exampleNode ''fine'']"
  let ?plan2 = "[exampleNode ''slow'', exampleNode ''broken'', exampleNode ''fine'']"
  have s2: "collect examplePlanner ?plan2 (isEtcd examplePlanner) = ?plan2"
    by (simp add: examplePlanner_def exampleNode_def)
  have n2: "?plan2 \<noteq> []" by simp
  have sp: "?plan2 = [exampleNode ''slow''] @ exampleNode ''broken'' # [exampleNode ''fine'']"
    by simp
  have g2: "\<forall>y \<in> set [exampleNode ''slow'']. generates examplePlanner exampleControlPlane () ''server'' y"
    by (simp add: generates_def planner_defs)
  have b2: "snd (snd (generateEtcdSnapshotCreatePlan examplePlanner exampleControlPlane ()
      (exampleNode ''broken'') ''server'')) = Some (errorString ''no config'')"
    by (simp add: planner_defs)
  have d2: "fst (dispatchEveryNode examplePlanner exampleControlPlane () ''server'' [exampleNode ''slow''] []) =
      [''slow'']"
    by (simp add: planner_defs)
  have s: "collect examplePlanner ?plan (isEtcd examplePlanner) = ?plan"
    by (simp add: examplePlanner_def exampleNode_def)
  have n: "?plan \<noteq> []" by simp
  have g: "\<forall>x \<in> set ?plan. generates examplePlanner exampleControlPlane () ''server'' x"
    by (simp add: generates_def planner_defs)
  have d: "dispatchEveryNode examplePlanner exampleControlPlane () ''server'' ?plan [] =
     ([''fail-1'', ''slow'', ''fine''],
      [Some (errorString ''fail-1 failed''), Some (errWaiting ''slow waiting'')])"
    by (simp add: planner_defs)
  have w1: "runEtcdSnapshotCreate examplePlanner [] exampleControlPlane () ?plan ''server'' =
      dispatchEveryNode examplePlanner exampleControlPlane () ''server'' ?plan []"
    using runEtcdSnapshotCreate_fan_out [OF s n, where cp = exampleControlPlane and tok = "()"
        and js = "''server''" and store = "[]" and pre = "[]" and x = "exampleNode ''fine''"
        and post = "[]" and g = "errorString ''no config''"] g
    by blast
  have w2: "runEtcdSnapshotCreate examplePlanner [] exampleControlPlane () ?plan2 ''server'' =
      (fst (dispatchEveryNode examplePlanner exampleControlPlane () ''server'' [exampleNode ''slow''] []),
       [Some (errorString ''no config'')])"
    using runEtcdSnapshotCreate_fan_out [OF s2 n2, where cp = exampleControlPlane and tok = "()"
        and js = "''server''" and store = "[]" and pre = "[exampleNode ''slow'']"
        and x = "exampleNode ''broken''" and post = "[exampleNode ''fine'']"
        and g = "errorString ''no config''"] sp g2 b2
    by blast
  show ?thesis
    unfolding w1 w2 d d2 by simp
qed

text \<open>
  The claim as it is stated fails: the dispatch to the first machine fails, the plan of the
  second cannot be generated, and the fan-out returns the error of the generation alone.
  The error of the first dispatch is not in the list, and the third machine is never
  dispatched, while the fan-out over every node would dispatch all three.
\<close>

theorem runEtcdSnapshotCreate_short_circuit_counterexample:
  "runEtcdSnapshotCreate examplePlanner [] exampleControlPlane ()
      [exampleNode ''fail-1'', exampleNode ''broken'', exampleNode ''fine''] ''server'' =
     ([''fail-1''], [Some (errorString ''no config'')]) \<and>
   dispatchEveryNode examplePlanner exampleControlPlane () ''server''
      [exampleNode ''fail-1'', exampleNode ''broken'', exampleNode ''fine''] [] =
     ([''fail-1'', ''broken'', ''fine''], [Some (errorString ''fail-1 failed'')]) \<and>
   runEtcdSnapshotCreate examplePlanner [] exampleControlPlane ()
      [exampleNode ''fail-1'', exampleNode ''broken'', exampleNode ''fine''] ''server'' \<noteq>
   dispatchEveryNode examplePlanner exampleControlPlane () ''server''
      [exampleNode ''fail-1'', exampleNode ''broken'', exampleNode ''fine''] []"
  by (simp add: planner_defs)

text \<open>
  Claim C8. When no machine of the cluster plan passes the filter of the etcd role,
  \<open>runEtcdSnapshotCreate\<close> returns one error, which is not a waiting error, and the store
  unchanged; this holds whatever the transport is, so no plan is dispatched.
\<close>

theorem runEtcdSnapshotCreate_no_server:
  assumes "collect p plan (isEtcd p) = []"
  shows "runEtcdSnapshotCreate (p\<lparr>assignAndCheckPlan := transport\<rparr>) store cp tok plan js =
       (store, [Some (errorString ''failed to find node to perform etcd snapshot'')]) \<and>
     runEtcdSnapshotCreate p store cp tok plan js =
       (store, [Some (errorString ''failed to find node to perform etcd snapshot'')]) \<and>
     \<not> IsErrWaiting (errorString ''failed to find node to perform etcd snapshot'')"
  using assms by (simp add: runEtcdSnapshotCreate_def)

theorem runEtcdSnapshotCreate_no_server_witness:
  "collect examplePlanner [(exampleNode ''worker'')\<lparr>Metadata_Labels := [(''role'', ''worker'')]\<rparr>]
      (isEtcd examplePlanner) = [] \<and>
   runEtcdSnapshotCreate examplePlanner [] exampleControlPlane ()
      [(exampleNode ''worker'')\<lparr>Metadata_Labels := [(''role'', ''worker'')]\<rparr>] ''server'' =
     ([], [Some (errorString ''failed to find node to perform etcd snapshot'')])"
proof -
  have c: "collect examplePlanner [(exampleNode ''worker'')\<lparr>Metadata_Labels := [(''role'', ''worker'')]\<rparr>]
      (isEtcd examplePlanner) = []"
    by (simp add: examplePlanner_def exampleNode_def)
  show ?thesis
    using runEtcdSnapshotCreate_no_server [OF c, of "assignAndCheckPlan examplePlanner" "[]"
        exampleControlPlane "()" "''server''"] c
    by simp
qed

text \<open>
  Claim C7. For every current request, \<open>startOrRestartEtcdSnapshotCreate\<close> writes the
  phase Started and the current request and returns the waiting error whenever no request
  is stored or the stored request is not deep-equal to the current one, whatever the stored
  phase is (Finished and Failed included); it returns the status unchanged and no error
  when the stored request deep-equals the current one. The current request is present, as
  it is at the one call of the function, behind the nil check of \<open>createEtcdSnapshot\<close>.
\<close>

theorem startOrRestartEtcdSnapshotCreate_spec:
  "(ETCDSnapshotCreate status = None \<or> \<not> DeepEqual (Some request) (ETCDSnapshotCreate status) \<longrightarrow>
      startOrRestartEtcdSnapshotCreate status (Some request) =
        (status\<lparr>ETCDSnapshotCreatePhase := ETCDSnapshotPhaseStarted, ETCDSnapshotCreate := Some request\<rparr>,
         Some (errWaiting ''refreshing etcd create state''))) \<and>
   (DeepEqual (Some request) (ETCDSnapshotCreate status) \<longrightarrow>
      startOrRestartEtcdSnapshotCreate status (Some request) = (status, None))"
  by (auto simp: startOrRestartEtcdSnapshotCreate_def setEtcdSnapshotCreateState_def DeepEqual_iff)

text \<open>A finished snapshot of the request 1 and the new request 2: the phase is Started
  again and the request 2 is stored; the same after a failed snapshot, and with no request
  stored. The request 1 again: nothing changes.\<close>

theorem startOrRestartEtcdSnapshotCreate_spec_witness:
  "startOrRestartEtcdSnapshotCreate
      (exampleStatus\<lparr>ETCDSnapshotCreatePhase := ETCDSnapshotPhaseFinished\<rparr>) (Some 2) =
     (exampleStatus\<lparr>ETCDSnapshotCreatePhase := ETCDSnapshotPhaseStarted, ETCDSnapshotCreate := Some 2\<rparr>,
      Some (errWaiting ''refreshing etcd create state'')) \<and>
   startOrRestartEtcdSnapshotCreate
      (exampleStatus\<lparr>ETCDSnapshotCreatePhase := ETCDSnapshotPhaseFailed\<rparr>) (Some 2) =
     (exampleStatus\<lparr>ETCDSnapshotCreatePhase := ETCDSnapshotPhaseStarted, ETCDSnapshotCreate := Some 2\<rparr>,
      Some (errWaiting ''refreshing etcd create state'')) \<and>
   startOrRestartEtcdSnapshotCreate
      (exampleStatus\<lparr>ETCDSnapshotCreatePhase := PhaseEmpty, ETCDSnapshotCreate := None\<rparr>) (Some 2) =
     (exampleStatus\<lparr>ETCDSnapshotCreatePhase := ETCDSnapshotPhaseStarted, ETCDSnapshotCreate := Some 2\<rparr>,
      Some (errWaiting ''refreshing etcd create state'')) \<and>
   startOrRestartEtcdSnapshotCreate
      (exampleStatus\<lparr>ETCDSnapshotCreatePhase := ETCDSnapshotPhaseFinished\<rparr>) (Some 1) =
     (exampleStatus\<lparr>ETCDSnapshotCreatePhase := ETCDSnapshotPhaseFinished\<rparr>, None)"
  using startOrRestartEtcdSnapshotCreate_spec
      [of "exampleStatus\<lparr>ETCDSnapshotCreatePhase := ETCDSnapshotPhaseFinished\<rparr>" 2]
    startOrRestartEtcdSnapshotCreate_spec
      [of "exampleStatus\<lparr>ETCDSnapshotCreatePhase := ETCDSnapshotPhaseFailed\<rparr>" 2]
    startOrRestartEtcdSnapshotCreate_spec
      [of "exampleStatus\<lparr>ETCDSnapshotCreatePhase := PhaseEmpty, ETCDSnapshotCreate := None\<rparr>" 2]
    startOrRestartEtcdSnapshotCreate_spec
      [of "exampleStatus\<lparr>ETCDSnapshotCreatePhase := ETCDSnapshotPhaseFinished\<rparr>" 1]
  by (simp add: exampleStatus_def DeepEqual_def)

end
